theory Spec2Isabelle
  imports Main "HOL-Library.Word"
begin

section \<open>The dependency graph of graph.h\<close>

text \<open>
  The graph of \<^verbatim>\<open>graph.h\<close>: nodes (files), rules and edges (build steps). A
  \<^verbatim>\<open>Node*\<close> is modelled by the node's path, the key under which the owning
  state holds it, and an \<^verbatim>\<open>Edge*\<close> by the index of the edge in the state.
\<close>

subsection \<open>Node\<close>

text \<open>
  \<^verbatim>\<open>TimeStamp\<close> is declared in \<^verbatim>\<open>timestamp.h\<close>; the header compares it with
  the constants \<^verbatim>\<open>-1\<close> and \<^verbatim>\<open>0\<close> only, and it is an integer here. The values
  of \<^verbatim>\<open>mtime_\<close> are, in the words of the header: \<^verbatim>\<open>-1\<close> the file has not been
  examined, \<^verbatim>\<open>0\<close> we looked and the file does not exist, \<^verbatim>\<open>>0\<close> the file's
  mtime.
\<close>

type_synonym TimeStamp = int

record Node =
  path :: string
  mtime :: TimeStamp
  dirty :: bool
  in_edge :: "nat option"
  out_edges :: "nat list"

text \<open>The constructor \<^verbatim>\<open>Node(const string& path)\<close>.\<close>

definition Node :: "string \<Rightarrow> Node" where
  "Node p = \<lparr>path = p, mtime = - 1, dirty = False, in_edge = None, out_edges = []\<rparr>"

text \<open>\<^verbatim>\<open>ResetState\<close>: mark as not yet stat()ed and not dirty.\<close>

definition ResetState :: "Node \<Rightarrow> Node" where
  "ResetState n = n\<lparr>mtime := - 1, dirty := False\<rparr>"

text \<open>\<^verbatim>\<open>MarkMissing\<close>: mark the node as already stat()ed and missing.\<close>

definition MarkMissing :: "Node \<Rightarrow> Node" where
  "MarkMissing n = n\<lparr>mtime := 0\<rparr>"

definition exists :: "Node \<Rightarrow> bool" where
  "exists n = (mtime n \<noteq> 0)"

definition status_known :: "Node \<Rightarrow> bool" where
  "status_known n = (mtime n \<noteq> - 1)"

subsection \<open>Rule\<close>

text \<open>
  Modelled from the spec: \<^verbatim>\<open>EvalString\<close> (\<^verbatim>\<open>eval_env.h\<close>, not among the
  sources), "a precompiled template composed of literal fragments and variable
  references".
\<close>

datatype fragment = Literal string | Variable string

type_synonym EvalString = "fragment list"

text \<open>
  Modelled from the spec: \<^verbatim>\<open>Env\<close> (\<^verbatim>\<open>eval_env.h\<close>, not among the sources), a
  lookup scope for variables that chains lookups: the list of the scopes' bindings,
  innermost scope first. The empty list is the null pointer of \<^verbatim>\<open>Edge()\<close>.
\<close>

type_synonym Env = "(string \<times> string) list list"

record Rule =
  name :: string
  generator :: bool
  restat :: bool
  command :: EvalString
  description :: EvalString
  depfile :: EvalString
  rspfile :: EvalString
  rspfile_content :: EvalString

text \<open>The constructor \<^verbatim>\<open>Rule(const string& name)\<close>; the templates start empty.\<close>

definition Rule :: "string \<Rightarrow> Rule" where
  "Rule n = \<lparr>name = n, generator = False, restat = False, command = [],
     description = [], depfile = [], rspfile = [], rspfile_content = []\<rparr>"

subsection \<open>Edge\<close>

text \<open>
  All three kinds of inputs are in \<^verbatim>\<open>inputs_\<close>; in the words of the header, it
  keeps counts of the implicit and of the order-only ones, and
  \<^verbatim>\<open>depfile_implicit_deps_\<close> records the number of implicit dependencies discovered
  from the depfile. The counters are declared \<^verbatim>\<open>int\<close>; \<^verbatim>\<open>Edge()\<close> starts them
  at 0 and they count inputs, so they are natural numbers here.
\<close>

record Edge =
  rule :: Rule
  inputs :: "string list"
  outputs :: "string list"
  env :: Env
  outputs_ready :: bool
  implicit_deps :: nat
  depfile_implicit_deps :: nat
  order_only_deps :: nat

text \<open>The constructor \<^verbatim>\<open>Edge()\<close>; \<open>r\<close> stands for the rule set afterwards.\<close>

definition Edge :: "Rule \<Rightarrow> Edge" where
  "Edge r = \<lparr>rule = r, inputs = [], outputs = [], env = [], outputs_ready = False,
     implicit_deps = 0, depfile_implicit_deps = 0, order_only_deps = 0\<rparr>"

text \<open>
  The positional predicates take a \<^verbatim>\<open>size_t\<close> index and compute in
  \<^verbatim>\<open>size_t\<close>: \<^verbatim>\<open>inputs_.size()\<close> is a \<^verbatim>\<open>size_t\<close>, each counter is converted
  to \<^verbatim>\<open>size_t\<close> and the subtractions wrap around modulo \<open>2 ^ 64\<close>.
\<close>

type_synonym size_t = "64 word"

definition to_size_t :: "nat \<Rightarrow> size_t" where
  "to_size_t c = of_nat c"

definition inputs_size :: "Edge \<Rightarrow> size_t" where
  "inputs_size e = of_nat (length (inputs e))"

definition is_order_only :: "Edge \<Rightarrow> size_t \<Rightarrow> bool" where
  "is_order_only e index = (index \<ge> inputs_size e - to_size_t (order_only_deps e))"

definition is_implicit :: "Edge \<Rightarrow> size_t \<Rightarrow> bool" where
  "is_implicit e index =
     (index \<ge> inputs_size e - to_size_t (order_only_deps e) - to_size_t (implicit_deps e)
      \<and> \<not> is_order_only e index)"

definition is_depfile_implicit :: "Edge \<Rightarrow> size_t \<Rightarrow> bool" where
  "is_depfile_implicit e index =
     (index \<ge> inputs_size e - to_size_t (order_only_deps e)
                 - to_size_t (depfile_implicit_deps e)
      \<and> \<not> is_order_only e index)"

section \<open>Command evaluation\<close>

text \<open>
  \<^verbatim>\<open>graph.h\<close> declares \<^verbatim>\<open>Edge::EvaluateCommand\<close> and its helpers; their bodies
  (\<^verbatim>\<open>graph.cc\<close>) and the expansion of templates (\<^verbatim>\<open>eval_env.h\<close>) are not among
  the sources. The definitions of this section follow the specification, sections 4.3
  and 4.4.
\<close>

text \<open>
  Modelled from the spec: the lookup of a variable in a chain of scopes
  (\<^verbatim>\<open>Env::LookupVariable\<close>, \<^verbatim>\<open>eval_env.h\<close>); the innermost scope that binds the
  variable wins, and "unresolved variables expand to empty".
\<close>

fun LookupVariable :: "Env \<Rightarrow> string \<Rightarrow> string" where
  "LookupVariable [] var = []"
| "LookupVariable (scope # parents) var =
     (case map_of scope var of Some v \<Rightarrow> v | None \<Rightarrow> LookupVariable parents var)"

text \<open>
  Modelled from the spec: \<^verbatim>\<open>EvalString::Expand\<close> (\<^verbatim>\<open>eval_env.h\<close>), which "yields
  a string by looking each reference up in the given scope".
\<close>

definition Expand :: "(string \<Rightarrow> string) \<Rightarrow> EvalString \<Rightarrow> string" where
  "Expand scope es =
     concat (map (\<lambda>f. case f of Literal s \<Rightarrow> s | Variable v \<Rightarrow> scope v) es)"

text \<open>
  Modelled from the spec: the characters that count as whitespace for shell-escaping
  (the specification says "whitespace" and no more): the blank and the control
  characters HT, LF, VT, FF and CR.
\<close>

definition is_whitespace :: "char \<Rightarrow> bool" where
  "is_whitespace c = (c \<in> set [CHR '' '', CHR 0x09, CHR 0x0A, CHR 0x0B, CHR 0x0C, CHR 0x0D])"

text \<open>
  Modelled from the spec: shell-escaping, which "wraps any token containing whitespace
  in double quotes".
\<close>

definition ShellEscape :: "string \<Rightarrow> string" where
  "ShellEscape t = (if list_ex is_whitespace t then [CHR 0x22] @ t @ [CHR 0x22] else t)"

text \<open>Modelled from the spec: "space-joined", one blank between two tokens.\<close>

fun join :: "string list \<Rightarrow> string" where
  "join [] = []"
| "join [t] = t"
| "join (t # ts) = t @ '' '' @ join ts"

text \<open>
  Modelled from the spec: the "space-joined, shell-escaped list" of paths that
  \<^verbatim>\<open>$in\<close> and \<^verbatim>\<open>$out\<close> expand to.
\<close>

definition MakePathList :: "string list \<Rightarrow> string" where
  "MakePathList ps = join (map ShellEscape ps)"

text \<open>
  Modelled from the spec: the explicit inputs of an edge, the span
  \<open>[0 .. n - implicit_deps - order_only_deps)\<close> of its inputs.
\<close>

definition explicit_inputs :: "Edge \<Rightarrow> string list" where
  "explicit_inputs e =
     take (length (inputs e) - implicit_deps e - order_only_deps e) (inputs e)"

text \<open>
  Modelled from the spec: the edge's scope. "The binding name in expands to the
  space-joined, shell-escaped list of explicit inputs; out expands to the space-joined,
  shell-escaped list of outputs"; every other name is looked up in the edge's
  environment.
\<close>

definition EdgeScope :: "Edge \<Rightarrow> string \<Rightarrow> string" where
  "EdgeScope e var =
     (if var = ''in'' then MakePathList (explicit_inputs e)
      else if var = ''out'' then MakePathList (outputs e)
      else LookupVariable (env e) var)"

text \<open>Modelled from the spec: \<^verbatim>\<open>Edge::GetRspFile\<close> (\<^verbatim>\<open>graph.cc\<close>).\<close>

definition GetRspFile :: "Edge \<Rightarrow> string" where
  "GetRspFile e = Expand (EdgeScope e) (rspfile (rule e))"

text \<open>Modelled from the spec: \<^verbatim>\<open>Edge::GetRspFileContent\<close> (\<^verbatim>\<open>graph.cc\<close>).\<close>

definition GetRspFileContent :: "Edge \<Rightarrow> string" where
  "GetRspFileContent e = Expand (EdgeScope e) (rspfile_content (rule e))"

text \<open>
  Modelled from the spec: \<^verbatim>\<open>Edge::HasRspFile\<close> (\<^verbatim>\<open>graph.cc\<close>), "true iff
  rspfile expands to a non-empty path".
\<close>

definition HasRspFile :: "Edge \<Rightarrow> bool" where
  "HasRspFile e = (GetRspFile e \<noteq> [])"

text \<open>
  Modelled from the spec: \<^verbatim>\<open>Edge::EvaluateCommand\<close> (\<^verbatim>\<open>graph.cc\<close>): "expand the
  rule's command template against the edge's scope. If include_rsp is true and the rule
  specifies rspfile, append a marker and the expanded rspfile_content". The text of
  the marker is in neither the specification nor the header: it is the parameter
  \<open>marker\<close>.
\<close>

definition EvaluateCommand :: "string \<Rightarrow> Edge \<Rightarrow> bool \<Rightarrow> string" where
  "EvaluateCommand marker e incl_rsp_file =
     Expand (EdgeScope e) (command (rule e))
     @ (if incl_rsp_file \<and> HasRspFile e then marker @ GetRspFileContent e else [])"

section \<open>The dependency scan\<close>

text \<open>
  \<^verbatim>\<open>graph.h\<close> declares \<^verbatim>\<open>DependencyScan\<close>: a state, a build log and a disk
  interface, each held by pointer; the tests of \<^verbatim>\<open>graph_test.cc\<close> pass
  \<^verbatim>\<open>NULL\<close> for the build log. The bodies of its functions (\<^verbatim>\<open>graph.cc\<close>) and
  the types it points to (\<^verbatim>\<open>state.h\<close>, \<^verbatim>\<open>build_log.h\<close>,
  \<^verbatim>\<open>disk_interface.h\<close>) are not among the sources; the definitions of this section
  follow the specification, sections 3, 4.6 and 6.
\<close>

text \<open>
  Modelled from the spec: \<^verbatim>\<open>State\<close> (\<^verbatim>\<open>state.h\<close>), which "owns all nodes (by
  path)" and all edges.
\<close>

record State =
  paths :: "string \<rightharpoonup> Node"
  edges :: "Edge list"

text \<open>
  Modelled from the spec: the node of a path, "hash-map lookup or insert": a path the
  state has not seen yet names a freshly constructed node.
\<close>

definition GetNode :: "State \<Rightarrow> string \<Rightarrow> Node" where
  "GetNode st p = (case paths st p of Some n \<Rightarrow> n | None \<Rightarrow> Node p)"

text \<open>
  Modelled from the spec: an entry of the build log (\<^verbatim>\<open>build_log.h\<close>), which
  "carries the command string used in the last successful build".
\<close>

record LogEntry =
  command_string :: string

type_synonym BuildLog = "string \<rightharpoonup> LogEntry"

text \<open>
  Modelled from the spec: \<^verbatim>\<open>BuildLog::LookupByOutput\<close> (\<^verbatim>\<open>build_log.h\<close>),
  \<open>LookupByOutput(path) \<rightarrow> optional<Entry>\<close>.
\<close>

definition LookupByOutput :: "BuildLog \<Rightarrow> string \<Rightarrow> LogEntry option" where
  "LookupByOutput log p = log p"

text \<open>
  Modelled from the spec: the disk interface (\<^verbatim>\<open>disk_interface.h\<close>), by its
  \<^verbatim>\<open>Stat\<close>: the mtime of a path, zero when the file is absent.
\<close>

type_synonym DiskInterface = "string \<Rightarrow> TimeStamp"

record DependencyScan =
  state :: State
  build_log :: "BuildLog option"
  disk_interface :: DiskInterface

text \<open>
  Modelled from the spec: \<^verbatim>\<open>Edge::is_phony\<close> (\<^verbatim>\<open>graph.cc\<close>), "true iff the
  rule's name is phony".
\<close>

definition is_phony :: "Edge \<Rightarrow> bool" where
  "is_phony e = (name (rule e) = ''phony'')"

text \<open>Modelled from the spec: the node of the \<open>i\<close>-th input of an edge.\<close>

definition input_node :: "State \<Rightarrow> Edge \<Rightarrow> nat \<Rightarrow> Node" where
  "input_node st e i = GetNode st (inputs e ! i)"

text \<open>Modelled from the spec: a node "whose producing edge is phony".\<close>

definition produced_by_phony :: "State \<Rightarrow> Node \<Rightarrow> bool" where
  "produced_by_phony st n =
     (case in_edge n of None \<Rightarrow> False
      | Some k \<Rightarrow> k < length (edges st) \<and> is_phony (edges st ! k))"

text \<open>
  Modelled from the spec: the inputs that step 2c of the scan tracks, "excluding
  order-only inputs and excluding inputs whose producing edge is phony and whose own
  mtime is Missing".
\<close>

definition counts_for_most_recent :: "State \<Rightarrow> Edge \<Rightarrow> nat \<Rightarrow> bool" where
  "counts_for_most_recent st e i =
     (\<not> is_order_only e (of_nat i)
      \<and> \<not> (produced_by_phony st (input_node st e i) \<and> mtime (input_node st e i) = 0))"

text \<open>
  Modelled from the spec: step 2c of \<^verbatim>\<open>RecomputeDirty\<close> (\<^verbatim>\<open>graph.cc\<close>), the
  loop over the inputs "in manifest order" that tracks the most recent input; "ties
  broken by manifest order (earliest wins)".
\<close>

fun most_recent_from :: "State \<Rightarrow> Edge \<Rightarrow> nat list \<Rightarrow> Node option \<Rightarrow> Node option" where
  "most_recent_from st e [] most_recent = most_recent"
| "most_recent_from st e (i # rest) most_recent =
     most_recent_from st e rest
       (if counts_for_most_recent st e i
        then (case most_recent of
                None \<Rightarrow> Some (input_node st e i)
              | Some m \<Rightarrow> if mtime m < mtime (input_node st e i)
                           then Some (input_node st e i) else Some m)
        else most_recent)"

text \<open>
  Modelled from the spec: the most recent input that \<^verbatim>\<open>RecomputeDirty\<close> hands to
  \<^verbatim>\<open>RecomputeOutputDirty\<close>; none when no input counts.
\<close>

definition most_recent_input :: "State \<Rightarrow> Edge \<Rightarrow> Node option" where
  "most_recent_input st e = most_recent_from st e [0..<length (inputs e)] None"

text \<open>
  Modelled from the spec: rule 1 of the per-output dirtiness, "the edge is phony and
  any of its explicit or implicit inputs is missing".
\<close>

definition phony_input_missing :: "State \<Rightarrow> Edge \<Rightarrow> bool" where
  "phony_input_missing st e =
     (is_phony e \<and>
      list_ex (\<lambda>i. \<not> is_order_only e (of_nat i) \<and> \<not> exists (input_node st e i))
        [0..<length (inputs e)])"

text \<open>
  Modelled from the spec: rule 3, the mtime rule, "most_recent exists and
  most_recent.mtime > o.mtime".
\<close>

definition output_older :: "Node option \<Rightarrow> Node \<Rightarrow> bool" where
  "output_older most_recent output =
     (case most_recent of None \<Rightarrow> False | Some m \<Rightarrow> mtime m > mtime output)"

text \<open>
  Modelled from the spec: rule 4, "the rule is not a generator and the build log has a
  recorded command for o whose value differs from the current command. If the build log
  has no record for o and the edge is not a generator, the output is also dirty". The
  rule reads the build log; a scan that has none (the \<^verbatim>\<open>NULL\<close> of
  \<^verbatim>\<open>GraphTest\<close>) has no record to compare, and tests such as
  \<^verbatim>\<open>PathWithCurrentDirectory\<close> expect a clean output from it, so the rule does not
  fire there.
\<close>

definition command_changed :: "DependencyScan \<Rightarrow> Edge \<Rightarrow> string \<Rightarrow> Node \<Rightarrow> bool" where
  "command_changed scan e cmd output =
     (\<not> generator (rule e) \<and>
      (case build_log scan of
         None \<Rightarrow> False
       | Some log \<Rightarrow>
           (case LookupByOutput log (path output) of
              None \<Rightarrow> True
            | Some entry \<Rightarrow> command_string entry \<noteq> cmd)))"

text \<open>Modelled from the spec: rule 5, "any input node is itself dirty (propagation)".\<close>

definition input_dirty :: "State \<Rightarrow> Edge \<Rightarrow> bool" where
  "input_dirty st e = list_ex (\<lambda>p. dirty (GetNode st p)) (inputs e)"

text \<open>
  Modelled from the spec: \<^verbatim>\<open>DependencyScan::RecomputeOutputDirty\<close>
  (\<^verbatim>\<open>graph.cc\<close>; the header gives its signature). "Output o is dirty if any of the
  following hold, in this priority order": the five rules, 2 being "o does not exist on
  disk"; before them, "phony edges with no inputs are never dirty".
\<close>

definition RecomputeOutputDirty ::
  "DependencyScan \<Rightarrow> Edge \<Rightarrow> Node option \<Rightarrow> string \<Rightarrow> Node \<Rightarrow> bool" where
  "RecomputeOutputDirty scan e most_recent cmd output =
     (if is_phony e \<and> inputs e = [] then False
      else if phony_input_missing (state scan) e then True
      else if \<not> exists output then True
      else if output_older most_recent output then True
      else if command_changed scan e cmd output then True
      else input_dirty (state scan) e)"

section \<open>Edges and states of the tests\<close>

text \<open>
  An edge with one input of each kind, as the manifest line
  \<^verbatim>\<open>build out: cat in | imp || oo\<close> and a depfile that adds \<^verbatim>\<open>dep.h\<close> leave it.
\<close>

definition four_kinds_edge :: Edge where
  "four_kinds_edge = (Edge (Rule ''cat''))
     \<lparr>inputs := [''in'', ''imp'', ''dep.h'', ''oo''], outputs := [''out''],
      implicit_deps := 2, depfile_implicit_deps := 1, order_only_deps := 1\<rparr>"

text \<open>
  An edge whose counters break the invariant \<open>implicit_deps + order_only_deps \<le>
  inputs.size\<close>: one input, two order-only dependencies.
\<close>

definition overcounted_edge :: Edge where
  "overcounted_edge = (Edge (Rule ''cat''))
     \<lparr>inputs := [''in''], outputs := [''out''], order_only_deps := 2\<rparr>"

text \<open>
  The rule \<^verbatim>\<open>cat\<close> comes from the fixture \<^verbatim>\<open>StateTestWithBuiltinRules\<close>
  (\<^verbatim>\<open>test.h\<close>), which is not among the sources, and neither they nor the
  specification give its command. It is taken to be \<^verbatim>\<open>cat $in > $out\<close>, the command
  that \<^verbatim>\<open>graph_test.cc\<close> writes for its rules \<^verbatim>\<open>catdep\<close>; the string that the
  test \<^verbatim>\<open>VarInOutQuoteSpaces\<close> expects has this form.
\<close>

definition cat_rule :: Rule where
  "cat_rule = (Rule ''cat'')
     \<lparr>command := [Literal ''cat '', Variable ''in'', Literal '' > '', Variable ''out'']\<rparr>"

text \<open>
  The edge of the test \<^verbatim>\<open>VarInOutQuoteSpaces\<close>, whose manifest line is
  \<^verbatim>\<open>build a$ b: cat nospace with$ space nospace2\<close>. The manifest parser is not
  among the sources and the specification does not describe the escape; the paths are
  read with \<^verbatim>\<open>$\<close> before a blank making the blank a part of the path, as the test
  does when it looks the output up as \<^verbatim>\<open>a b\<close>.
\<close>

definition quote_spaces_edge :: Edge where
  "quote_spaces_edge = (Edge cat_rule)
     \<lparr>inputs := [''nospace'', ''with space'', ''nospace2''], outputs := [''a b'']\<rparr>"

text \<open>
  An edge of the rule \<^verbatim>\<open>cat\<close> with inputs of every kind, each but the first with a
  blank in its path: two explicit inputs, an implicit one of the manifest, an implicit
  one of a depfile and an order-only one.
\<close>

definition quote_all_kinds_edge :: Edge where
  "quote_all_kinds_edge = (Edge cat_rule)
     \<lparr>inputs := [''nospace'', ''with space'', ''im plicit'', ''dep file.h'', ''order only''],
      outputs := [''a b''],
      implicit_deps := 2, depfile_implicit_deps := 1, order_only_deps := 1\<rparr>"

text \<open>
  The rule \<^verbatim>\<open>cat2\<close> of the test \<^verbatim>\<open>DepCheckSiblings\<close>:
  \<^verbatim>\<open>command = cat $in > $out1 && cat $in > $out\<close>.
\<close>

definition cat2_rule :: Rule where
  "cat2_rule = (Rule ''cat2'')
     \<lparr>command := [Literal ''cat '', Variable ''in'', Literal '' > '', Variable ''out1'',
                  Literal '' && cat '', Variable ''in'', Literal '' > '', Variable ''out'']\<rparr>"

text \<open>
  The edge of \<^verbatim>\<open>build headers.stamp generated.h: cat2 src.h\<close> of the same test, with
  its bindings \<^verbatim>\<open>out1=headers.stamp\<close> and \<^verbatim>\<open>out2=generated.h\<close>.
\<close>

definition siblings_edge :: Edge where
  "siblings_edge = (Edge cat2_rule)
     \<lparr>inputs := [''src.h''], outputs := [''headers.stamp'', ''generated.h''],
      env := [[(''out1'', ''headers.stamp''), (''out2'', ''generated.h'')]]\<rparr>"

text \<open>
  The edge of \<^verbatim>\<open>build out: cat in | implicit\<close> (tests \<^verbatim>\<open>MissingImplicit\<close> and
  \<^verbatim>\<open>ModifiedImplicit\<close>).
\<close>

definition implicit_edge :: Edge where
  "implicit_edge = (Edge cat_rule)
     \<lparr>inputs := [''in'', ''implicit''], outputs := [''out''], implicit_deps := 1\<rparr>"

text \<open>A node as a stat leaves it: the path, the mtime found and the producing edge.\<close>

definition stat_node :: "string \<Rightarrow> TimeStamp \<Rightarrow> nat option \<Rightarrow> Node" where
  "stat_node p t producer = (Node p)\<lparr>mtime := t, in_edge := producer\<rparr>"

text \<open>
  The files of \<^verbatim>\<open>ModifiedImplicit\<close> after the stats: \<^verbatim>\<open>in\<close> and \<^verbatim>\<open>out\<close> at
  time 1, \<^verbatim>\<open>implicit\<close> at time 2.
\<close>

definition modified_implicit :: State where
  "modified_implicit =
     \<lparr>paths = [''in'' \<mapsto> stat_node ''in'' 1 None,
               ''implicit'' \<mapsto> stat_node ''implicit'' 2 None,
               ''out'' \<mapsto> stat_node ''out'' 1 (Some 0)],
      edges = [implicit_edge]\<rparr>"

text \<open>
  The rule \<^verbatim>\<open>catdep\<close> of \<^verbatim>\<open>graph_test.cc\<close>: \<^verbatim>\<open>depfile = $out.d\<close> and
  \<^verbatim>\<open>command = cat $in > $out\<close>.
\<close>

definition catdep_rule :: Rule where
  "catdep_rule = (Rule ''catdep'')
     \<lparr>command := [Literal ''cat '', Variable ''in'', Literal '' > '', Variable ''out''],
      depfile := [Variable ''out'', Literal ''.d'']\<rparr>"

text \<open>
  The edge of \<^verbatim>\<open>build ./out.o: catdep ./foo.cc\<close> (test
  \<^verbatim>\<open>PathWithCurrentDirectory\<close>), its paths canonical. The depfile of the test
  names \<^verbatim>\<open>foo.cc\<close>, which is an input already, and adds no input.
\<close>

definition current_directory_edge :: Edge where
  "current_directory_edge = (Edge catdep_rule)
     \<lparr>inputs := [''foo.cc''], outputs := [''out.o'']\<rparr>"

text \<open>
  The files of \<^verbatim>\<open>PathWithCurrentDirectory\<close> after the stats: \<^verbatim>\<open>foo.cc\<close> and
  \<^verbatim>\<open>out.o\<close> at time 1.
\<close>

definition path_with_current_directory :: State where
  "path_with_current_directory =
     \<lparr>paths = [''foo.cc'' \<mapsto> stat_node ''foo.cc'' 1 None,
               ''out.o'' \<mapsto> stat_node ''out.o'' 1 (Some 0)],
      edges = [current_directory_edge]\<rparr>"

text \<open>The scans of the two states, with no build log, as \<^verbatim>\<open>GraphTest\<close> makes them.\<close>

definition scan_modified_implicit :: DependencyScan where
  "scan_modified_implicit =
     \<lparr>state = modified_implicit, build_log = None, disk_interface = (\<lambda>p. 0)\<rparr>"

definition scan_path_with_current_directory :: DependencyScan where
  "scan_path_with_current_directory =
     \<lparr>state = path_with_current_directory, build_log = None, disk_interface = (\<lambda>p. 0)\<rparr>"

section \<open>Node state\<close>

text \<open>
  C10. A freshly constructed node, and any node after \<^verbatim>\<open>ResetState\<close>, has mtime
  \<^verbatim>\<open>-1\<close>: its \<^verbatim>\<open>exists()\<close> is true and its \<^verbatim>\<open>status_known()\<close> is false.
  \<^verbatim>\<open>exists()\<close> is false exactly when mtime is \<^verbatim>\<open>0\<close>, the value that
  \<^verbatim>\<open>MarkMissing\<close> (or a stat of an absent file) stores. So \<^verbatim>\<open>exists()\<close> does
  not say that the file was ever seen on disk.
\<close>

theorem node_exists_unknown:
  "exists (Node p) \<and> \<not> status_known (Node p)
   \<and> mtime (ResetState n) = - 1 \<and> exists (ResetState n) \<and> \<not> status_known (ResetState n)
   \<and> (\<not> exists n \<longleftrightarrow> mtime n = 0)
   \<and> \<not> exists (MarkMissing n) \<and> status_known (MarkMissing n)"
  by (simp add: Node_def ResetState_def MarkMissing_def exists_def status_known_def)

section \<open>The spans of the inputs\<close>

text \<open>The \<^verbatim>\<open>size_t\<close> subtractions of the predicates do not wrap within the size.\<close>

lemma unat_size_sub:
  assumes "a \<le> n" "n < 2 ^ 64"
  shows "unat ((of_nat n :: size_t) - to_size_t a) = n - a"
proof -
  have "(of_nat n :: size_t) - to_size_t a = of_nat (n - a)"
    using assms(1) by (simp add: to_size_t_def)
  moreover have "unat (of_nat (n - a) :: size_t) = n - a"
    using assms(2) by (simp add: unat_of_nat)
  ultimately show ?thesis by (simp only:)
qed

lemma unat_size_sub2:
  assumes "a + b \<le> n" "n < 2 ^ 64"
  shows "unat ((of_nat n :: size_t) - to_size_t a - to_size_t b) = n - a - b"
proof -
  have "a \<le> n" "b \<le> n - a" using assms(1) by simp_all
  then have "(of_nat n :: size_t) - to_size_t a - to_size_t b = of_nat (n - a - b)"
    by (simp add: to_size_t_def)
  moreover have "unat (of_nat (n - a - b) :: size_t) = n - a - b"
    using assms(2) by (simp add: unat_of_nat)
  ultimately show ?thesis by (simp only:)
qed

text \<open>
  C8. For an edge with \<open>implicit_deps + order_only_deps \<le> inputs.size\<close> and
  \<open>depfile_implicit_deps \<le> implicit_deps\<close>, and \<open>n = inputs.size\<close> (a
  \<^verbatim>\<open>size_t\<close>, so below \<open>2 ^ 64\<close>), for every index \<open>i\<close>:
  \<^verbatim>\<open>is_order_only(i)\<close> holds iff \<open>i \<ge> n - order_only_deps\<close>;
  \<^verbatim>\<open>is_implicit(i)\<close> holds iff \<open>n - order_only_deps - implicit_deps \<le> i < n -
  order_only_deps\<close>; \<^verbatim>\<open>is_depfile_implicit(i)\<close> holds iff \<open>i\<close> is one of the last
  \<open>depfile_implicit_deps\<close> positions before the order-only span, and it implies
  \<^verbatim>\<open>is_implicit(i)\<close>.
\<close>

theorem positional_spans:
  assumes size: "length (inputs e) < 2 ^ 64"
    and span: "implicit_deps e + order_only_deps e \<le> length (inputs e)"
    and dep: "depfile_implicit_deps e \<le> implicit_deps e"
  shows "(is_order_only e i \<longleftrightarrow> length (inputs e) - order_only_deps e \<le> unat i)
    \<and> (is_implicit e i \<longleftrightarrow>
          length (inputs e) - order_only_deps e - implicit_deps e \<le> unat i
          \<and> unat i < length (inputs e) - order_only_deps e)
    \<and> (is_depfile_implicit e i \<longleftrightarrow>
          length (inputs e) - order_only_deps e - depfile_implicit_deps e \<le> unat i
          \<and> unat i < length (inputs e) - order_only_deps e)
    \<and> (is_depfile_implicit e i \<longrightarrow> is_implicit e i)"
proof -
  let ?n = "length (inputs e)"
  let ?oo = "order_only_deps e"
  have o1: "?oo \<le> ?n" using span by simp
  have i1: "?oo + implicit_deps e \<le> ?n" using span by simp
  have d1: "?oo + depfile_implicit_deps e \<le> ?n" using span dep by simp
  have o: "unat (inputs_size e - to_size_t ?oo) = ?n - ?oo"
    unfolding inputs_size_def by (rule unat_size_sub [OF o1 size])
  have i: "unat (inputs_size e - to_size_t ?oo - to_size_t (implicit_deps e))
      = ?n - ?oo - implicit_deps e"
    unfolding inputs_size_def by (rule unat_size_sub2 [OF i1 size])
  have d: "unat (inputs_size e - to_size_t ?oo - to_size_t (depfile_implicit_deps e))
      = ?n - ?oo - depfile_implicit_deps e"
    unfolding inputs_size_def by (rule unat_size_sub2 [OF d1 size])
  have oo: "is_order_only e i \<longleftrightarrow> ?n - ?oo \<le> unat i"
    by (simp only: is_order_only_def word_le_nat_alt o)
  have ii: "is_implicit e i \<longleftrightarrow>
          ?n - ?oo - implicit_deps e \<le> unat i \<and> unat i < ?n - ?oo"
    unfolding is_implicit_def oo by (simp only: word_le_nat_alt i not_le)
  have dd: "is_depfile_implicit e i \<longleftrightarrow>
          ?n - ?oo - depfile_implicit_deps e \<le> unat i \<and> unat i < ?n - ?oo"
    unfolding is_depfile_implicit_def oo by (simp only: word_le_nat_alt d not_le)
  have imp: "is_depfile_implicit e i \<longrightarrow> is_implicit e i"
    unfolding ii dd using dep by linarith
  show ?thesis using oo ii dd imp by blast
qed

theorem positional_spans_witness:
  "length (inputs four_kinds_edge) < 2 ^ 64
   \<and> implicit_deps four_kinds_edge + order_only_deps four_kinds_edge
       \<le> length (inputs four_kinds_edge)
   \<and> depfile_implicit_deps four_kinds_edge \<le> implicit_deps four_kinds_edge
   \<and> \<not> is_implicit four_kinds_edge 0 \<and> \<not> is_order_only four_kinds_edge 0
   \<and> is_implicit four_kinds_edge 1 \<and> \<not> is_depfile_implicit four_kinds_edge 1
   \<and> is_implicit four_kinds_edge 2 \<and> is_depfile_implicit four_kinds_edge 2
   \<and> is_order_only four_kinds_edge 3 \<and> \<not> is_implicit four_kinds_edge 3"
  using positional_spans [of four_kinds_edge 0] positional_spans [of four_kinds_edge 1]
    positional_spans [of four_kinds_edge 2] positional_spans [of four_kinds_edge 3]
  by (simp add: four_kinds_edge_def Edge_def)

text \<open>
  The hypothesis on the counters is needed: with more order-only dependencies than
  inputs the subtraction wraps around, and no small index is order-only.
\<close>

lemma overcounted_wraps:
  "\<not> is_order_only overcounted_edge 0 \<and> \<not> is_order_only overcounted_edge 1"
  by (simp add: overcounted_edge_def Edge_def is_order_only_def inputs_size_def to_size_t_def
      word_le_def unsigned_minus_1_eq_mask mask_eq_exp_minus_1)

section \<open>The mtime rule\<close>

lemma output_older_from:
  "output_older (most_recent_from st e is acc) out \<longleftrightarrow>
     output_older acc out
     \<or> (\<exists>i. i \<in> set is \<and> counts_for_most_recent st e i
            \<and> mtime out < mtime (input_node st e i))"
proof (induction "is" arbitrary: acc)
  case Nil
  then show ?case by simp
next
  case (Cons i rest)
  show ?case
    unfolding most_recent_from.simps Cons.IH
    by (auto simp: output_older_def split: option.splits)
qed

lemma output_older_most_recent:
  "output_older (most_recent_input st e) out \<longleftrightarrow>
     (\<exists>i. i < length (inputs e) \<and> counts_for_most_recent st e i
          \<and> mtime out < mtime (input_node st e i))"
  unfolding most_recent_input_def output_older_from by (simp add: output_older_def)

lemma most_recent_modified_implicit:
  "most_recent_input modified_implicit implicit_edge = Some (stat_node ''implicit'' 2 None)"
  by (simp add: most_recent_input_def modified_implicit_def implicit_edge_def Edge_def upt_rec
      counts_for_most_recent_def is_order_only_def inputs_size_def to_size_t_def word_le_def
      produced_by_phony_def input_node_def GetNode_def stat_node_def Node_def)

lemma most_recent_path_with_current_directory:
  "most_recent_input path_with_current_directory current_directory_edge
     = Some (stat_node ''foo.cc'' 1 None)"
  by (simp add: most_recent_input_def path_with_current_directory_def
      current_directory_edge_def Edge_def
      counts_for_most_recent_def is_order_only_def inputs_size_def to_size_t_def word_le_def
      produced_by_phony_def input_node_def GetNode_def stat_node_def Node_def)

text \<open>
  C1. In \<^verbatim>\<open>RecomputeOutputDirty\<close> the mtime rule compares strictly: it marks an
  output dirty iff there is a most recent input and its mtime is greater than the
  output's, and an input with the mtime of the output does not fire it. With the most
  recent input as the scan tracks it, the rule fires iff some input that counts (not
  order-only) has an mtime greater than the output's. The rule is the third of the five
  rules that \<^verbatim>\<open>RecomputeOutputDirty\<close> joins.
\<close>

theorem mtime_rule_strict:
  "(output_older most_recent out \<longleftrightarrow> (\<exists>m. most_recent = Some m \<and> mtime out < mtime m))
   \<and> \<not> output_older (Some m) (out\<lparr>mtime := mtime m\<rparr>)
   \<and> (output_older (most_recent_input st e) out \<longleftrightarrow>
        (\<exists>i. i < length (inputs e) \<and> counts_for_most_recent st e i
             \<and> mtime out < mtime (input_node st e i)))
   \<and> (RecomputeOutputDirty scan e most_recent cmd out \<longleftrightarrow>
        \<not> (is_phony e \<and> inputs e = [])
        \<and> (phony_input_missing (state scan) e \<or> \<not> exists out
           \<or> output_older most_recent out
           \<or> command_changed scan e cmd out \<or> input_dirty (state scan) e))"
proof -
  have a: "output_older most_recent out \<longleftrightarrow> (\<exists>m. most_recent = Some m \<and> mtime out < mtime m)"
    by (cases most_recent) (simp_all add: output_older_def)
  have b: "\<not> output_older (Some m) (out\<lparr>mtime := mtime m\<rparr>)"
    by (simp add: output_older_def)
  have d: "RecomputeOutputDirty scan e most_recent cmd out \<longleftrightarrow>
        \<not> (is_phony e \<and> inputs e = [])
        \<and> (phony_input_missing (state scan) e \<or> \<not> exists out
           \<or> output_older most_recent out
           \<or> command_changed scan e cmd out \<or> input_dirty (state scan) e)"
    by (simp add: RecomputeOutputDirty_def)
  show ?thesis using a b output_older_most_recent [of st e out] d by blast
qed

lemma not_phony_tests:
  "\<not> is_phony implicit_edge" "\<not> is_phony current_directory_edge"
  by (simp_all add: is_phony_def implicit_edge_def current_directory_edge_def Edge_def
      cat_rule_def catdep_rule_def Rule_def)

lemma rules_path_with_current_directory:
  "\<not> phony_input_missing path_with_current_directory current_directory_edge"
  "exists (GetNode path_with_current_directory ''out.o'')"
  "\<not> command_changed scan_path_with_current_directory current_directory_edge cmd out"
  "\<not> input_dirty path_with_current_directory current_directory_edge"
  by (simp_all add: phony_input_missing_def is_phony_def current_directory_edge_def Edge_def
      catdep_rule_def Rule_def exists_def GetNode_def path_with_current_directory_def
      stat_node_def Node_def command_changed_def scan_path_with_current_directory_def
      input_dirty_def)

text \<open>
  The two tests the rule decides: with \<^verbatim>\<open>implicit\<close> newer than \<^verbatim>\<open>out\<close> the
  output is dirty (\<^verbatim>\<open>ModifiedImplicit\<close>); with the input and the output at the same
  time the output is clean (\<^verbatim>\<open>PathWithCurrentDirectory\<close>).
\<close>

theorem mtime_rule_strict_witness:
  "RecomputeOutputDirty scan_modified_implicit implicit_edge
      (most_recent_input modified_implicit implicit_edge) []
      (GetNode modified_implicit ''out'')
   \<and> \<not> RecomputeOutputDirty scan_path_with_current_directory current_directory_edge
      (most_recent_input path_with_current_directory current_directory_edge) []
      (GetNode path_with_current_directory ''out.o'')"
proof -
  have st: "state scan_path_with_current_directory = path_with_current_directory"
    by (simp add: scan_path_with_current_directory_def)
  have om: "mtime (GetNode modified_implicit ''out'') = 1"
    and oc: "mtime (GetNode path_with_current_directory ''out.o'') = 1"
    by (simp_all add: GetNode_def modified_implicit_def path_with_current_directory_def
        stat_node_def)
  have "RecomputeOutputDirty scan_modified_implicit implicit_edge
      (most_recent_input modified_implicit implicit_edge) []
      (GetNode modified_implicit ''out'')"
    using mtime_rule_strict [where most_recent = "most_recent_input modified_implicit implicit_edge"
        and out = "GetNode modified_implicit ''out''" and scan = scan_modified_implicit
        and e = implicit_edge and cmd = "[]" and st = modified_implicit
        and m = "GetNode modified_implicit ''out''"]
    by (simp add: most_recent_modified_implicit om stat_node_def not_phony_tests)
  moreover have "\<not> RecomputeOutputDirty scan_path_with_current_directory current_directory_edge
      (most_recent_input path_with_current_directory current_directory_edge) []
      (GetNode path_with_current_directory ''out.o'')"
    using mtime_rule_strict
        [where most_recent = "most_recent_input path_with_current_directory current_directory_edge"
        and out = "GetNode path_with_current_directory ''out.o''"
        and scan = scan_path_with_current_directory
        and e = current_directory_edge and cmd = "[]" and st = path_with_current_directory
        and m = "GetNode path_with_current_directory ''out.o''"]
      rules_path_with_current_directory
    by (simp add: most_recent_path_with_current_directory oc st stat_node_def not_phony_tests)
  ultimately show ?thesis by simp
qed

section \<open>The command of an edge\<close>

text \<open>
  C9. \<^verbatim>\<open>EvaluateCommand\<close> expands the command template of the edge's rule, whatever
  the rule: the literal fragments stand as they are, \<^verbatim>\<open>$in\<close> becomes the explicit
  inputs (the inputs before the implicit and the order-only ones) and \<^verbatim>\<open>$out\<close> the
  outputs, joined by blanks, each token in double quotes exactly when it contains
  whitespace, and every other variable is looked up in the edge's environment. For the
  rule \<^verbatim>\<open>cat\<close> the command is \<^verbatim>\<open>cat\<close>, the inputs, \<^verbatim>\<open>>\<close>, the outputs; for
  \<^verbatim>\<open>build a$ b: cat nospace with$ space nospace2\<close> it is the string
  \<^verbatim>\<open>cat nospace "with space" nospace2 > "a b"\<close> of the test
  \<^verbatim>\<open>VarInOutQuoteSpaces\<close>. Implicit and order-only inputs are not in the command, and
  the rule \<^verbatim>\<open>cat2\<close> gives its own command.
\<close>

theorem evaluate_command_quotes:
  "EvaluateCommand marker e False
     = concat (map (\<lambda>f. case f of
                  Literal s \<Rightarrow> s
                | Variable v \<Rightarrow>
                    if v = ''in'' then
                      join (map ShellEscape
                        (take (length (inputs e) - implicit_deps e - order_only_deps e)
                           (inputs e)))
                    else if v = ''out'' then join (map ShellEscape (outputs e))
                    else LookupVariable (env e) v)
               (command (rule e)))
   \<and> EvaluateCommand marker e True
       = EvaluateCommand marker e False
         @ (if HasRspFile e then marker @ GetRspFileContent e else [])
   \<and> EdgeScope e ''in'' = join (map ShellEscape (explicit_inputs e))
   \<and> EdgeScope e ''out'' = join (map ShellEscape (outputs e))
   \<and> ShellEscape t = (if \<exists>c. c \<in> set t \<and> is_whitespace c
                        then [CHR 0x22] @ t @ [CHR 0x22] else t)
   \<and> join (t # u # ts) = t @ '' '' @ join (u # ts)
   \<and> EvaluateCommand marker (e\<lparr>rule := cat_rule\<rparr>) False
       = ''cat '' @ join (map ShellEscape (explicit_inputs e)) @ '' > ''
         @ join (map ShellEscape (outputs e))
   \<and> EvaluateCommand marker quote_spaces_edge False
       = ''cat nospace '' @ [CHR 0x22] @ ''with space'' @ [CHR 0x22] @ '' nospace2 > ''
         @ [CHR 0x22] @ ''a b'' @ [CHR 0x22]
   \<and> EvaluateCommand marker quote_all_kinds_edge False
       = ''cat nospace '' @ [CHR 0x22] @ ''with space'' @ [CHR 0x22] @ '' > ''
         @ [CHR 0x22] @ ''a b'' @ [CHR 0x22]
   \<and> EvaluateCommand marker siblings_edge False
       = ''cat src.h > headers.stamp && cat src.h > headers.stamp generated.h''"
proof -
  have g: "EvaluateCommand marker e False
     = concat (map (\<lambda>f. case f of
                  Literal s \<Rightarrow> s
                | Variable v \<Rightarrow>
                    if v = ''in'' then
                      join (map ShellEscape
                        (take (length (inputs e) - implicit_deps e - order_only_deps e)
                           (inputs e)))
                    else if v = ''out'' then join (map ShellEscape (outputs e))
                    else LookupVariable (env e) v)
               (command (rule e)))"
    unfolding EvaluateCommand_def Expand_def EdgeScope_def MakePathList_def explicit_inputs_def
    by simp
  have r: "EvaluateCommand marker e True
       = EvaluateCommand marker e False
         @ (if HasRspFile e then marker @ GetRspFileContent e else [])"
    by (simp add: EvaluateCommand_def)
  have a: "EdgeScope e ''in'' = join (map ShellEscape (explicit_inputs e))"
    and b: "EdgeScope e ''out'' = join (map ShellEscape (outputs e))"
    by (simp_all add: EdgeScope_def MakePathList_def)
  have c: "ShellEscape t = (if \<exists>c. c \<in> set t \<and> is_whitespace c
                        then [CHR 0x22] @ t @ [CHR 0x22] else t)"
    by (simp add: ShellEscape_def list_ex_iff Bex_def)
  have j: "join (t # u # ts) = t @ '' '' @ join (u # ts)"
    by simp
  have d: "EvaluateCommand marker (e\<lparr>rule := cat_rule\<rparr>) False
       = ''cat '' @ join (map ShellEscape (explicit_inputs e)) @ '' > ''
         @ join (map ShellEscape (outputs e))"
    by (simp add: EvaluateCommand_def Expand_def cat_rule_def EdgeScope_def MakePathList_def
        explicit_inputs_def)
  have f: "EvaluateCommand marker quote_spaces_edge False
       = ''cat nospace '' @ [CHR 0x22] @ ''with space'' @ [CHR 0x22] @ '' nospace2 > ''
         @ [CHR 0x22] @ ''a b'' @ [CHR 0x22]"
    by (simp add: EvaluateCommand_def Expand_def cat_rule_def EdgeScope_def MakePathList_def
        explicit_inputs_def quote_spaces_edge_def Edge_def ShellEscape_def is_whitespace_def)
  have k: "EvaluateCommand marker quote_all_kinds_edge False
       = ''cat nospace '' @ [CHR 0x22] @ ''with space'' @ [CHR 0x22] @ '' > ''
         @ [CHR 0x22] @ ''a b'' @ [CHR 0x22]"
    by (simp add: EvaluateCommand_def Expand_def cat_rule_def EdgeScope_def MakePathList_def
        explicit_inputs_def quote_all_kinds_edge_def Edge_def ShellEscape_def
        is_whitespace_def)
  have s: "EvaluateCommand marker siblings_edge False
       = ''cat src.h > headers.stamp && cat src.h > headers.stamp generated.h''"
    by (simp add: EvaluateCommand_def Expand_def cat2_rule_def EdgeScope_def MakePathList_def
        explicit_inputs_def siblings_edge_def Edge_def ShellEscape_def is_whitespace_def)
  show ?thesis using g r a b c j d f k s by (intro conjI)
qed

end
